theory Spec2Isabelle
  imports Main
begin

section \<open>The TOML validation check: scripts/test-toml-validation.py\<close>

text \<open>
  The script opens the fixture \<^verbatim>\<open>.secrets.toml.test\<close> in binary mode, hands what it read
  to \<^verbatim>\<open>tomllib.loads\<close>, and turns the outcome into printed lines and an exit status:

  \<^verbatim>\<open>
  try:
      with open('.secrets.toml.test', 'rb') as f:
          tomllib.loads(f.read())
      print("X ERROR: TOML validation should have failed!")
      print("   Missing closing quote was not detected!")
      sys.exit(1)
  except tomllib.TOMLDecodeError as e:
      print(f"V TOML validation correctly caught error:")
      print(f"   {e}")
      sys.exit(0)
  except Exception as e:
      print(f"!  Unexpected error: {e}")
      sys.exit(1)
  \<close>

  (the three glyphs are written here as X, V and !; the model keeps their UTF-8 bytes).
  The model threads an explicit world (file system, standard output, table of open file
  objects, log of library calls) through the statements; a raised exception is the
  \<open>Inl\<close> result of a statement.

  It starts at the \<^verbatim>\<open>try\<close> statement: the two imports have succeeded (an
  interpreter that ships \<^verbatim>\<open>tomllib\<close>), standard output takes every line, and no
  signal interrupts the run. The decoder is a parameter of the \<^verbatim>\<open>try\<close> statement
  (\<open>main_with\<close>), so that its handlers can be studied for any answer of a decoder;
  the script itself (\<open>main\<close>) fixes it to \<^verbatim>\<open>tomllib.loads\<close>.
\<close>

subsection \<open>Exceptions\<close>

text \<open>
  The part of the Python exception hierarchy the script can meet. \<open>mro\<close> lists a class
  followed by its ancestors, as \<^verbatim>\<open>cls.__mro__\<close> does (without \<^verbatim>\<open>object\<close>);
  \<^verbatim>\<open>tomllib.TOMLDecodeError\<close> derives from \<^verbatim>\<open>ValueError\<close>, and
  \<^verbatim>\<open>SystemExit\<close> derives from \<^verbatim>\<open>BaseException\<close> directly.
\<close>

datatype exc_class =
    BaseException
  | Exception
  | SystemExit
  | TypeError
  | ValueError
  | TOMLDecodeError
  | OSError
  | FileNotFoundError
  | PermissionError
  | IsADirectoryError

fun mro :: "exc_class \<Rightarrow> exc_class list" where
  "mro BaseException = [BaseException]"
| "mro Exception = [Exception, BaseException]"
| "mro SystemExit = [SystemExit, BaseException]"
| "mro TypeError = [TypeError, Exception, BaseException]"
| "mro ValueError = [ValueError, Exception, BaseException]"
| "mro TOMLDecodeError = [TOMLDecodeError, ValueError, Exception, BaseException]"
| "mro OSError = [OSError, Exception, BaseException]"
| "mro FileNotFoundError = [FileNotFoundError, OSError, Exception, BaseException]"
| "mro PermissionError = [PermissionError, OSError, Exception, BaseException]"
| "mro IsADirectoryError = [IsADirectoryError, OSError, Exception, BaseException]"

definition issubclass :: "exc_class \<Rightarrow> exc_class \<Rightarrow> bool" where
  "issubclass c d = (d \<in> set (mro c))"

text \<open>An exception object: its class and its single argument, a message or an exit code.\<close>

datatype exc_arg = Msg string | Code int

datatype pyexc = PyExc exc_class exc_arg

fun class_of :: "pyexc \<Rightarrow> exc_class" where
  "class_of (PyExc c a) = c"

fun arg_of :: "pyexc \<Rightarrow> exc_arg" where
  "arg_of (PyExc c a) = a"

definition isinstance :: "pyexc \<Rightarrow> exc_class \<Rightarrow> bool" where
  "isinstance e c = issubclass (class_of e) c"

text \<open>\<^verbatim>\<open>str(e)\<close>, which the f-strings of the two handlers interpolate.\<close>

fun str_nat :: "nat \<Rightarrow> string" where
  "str_nat n =
     (if n < 10 then [char_of (48 + n)]
      else str_nat (n div 10) @ [char_of (48 + n mod 10)])"

declare str_nat.simps [simp del]

definition str_int :: "int \<Rightarrow> string" where
  "str_int i = (if i < 0 then CHR ''-'' # str_nat (nat (- i)) else str_nat (nat i))"

fun str_exc :: "pyexc \<Rightarrow> string" where
  "str_exc (PyExc c (Msg m)) = m"
| "str_exc (PyExc c (Code n)) = str_int n"

definition quoted :: "string \<Rightarrow> string" where
  "quoted s = CHR 0x27 # s @ [CHR 0x27]"

subsection \<open>The world the script runs in\<close>

text \<open>
  A path of the file system holds nothing, something the process may not read, a
  directory, or a regular file with its bytes (a \<open>char\<close> is one byte).
\<close>

datatype fs_entry = Absent | Unreadable | Directory | Regular string

datatype pyval = PyStr string | PyBytes string

text \<open>
  The log of calls that leave the script: opening a file (with the descriptor obtained,
  if any), reading, closing, and the decode call with its argument.
\<close>

datatype call =
    Open string string "nat option"
  | Read nat
  | Close nat
  | Loads pyval

record world =
  files :: "string \<Rightarrow> fs_entry"
  stdout :: "string list"
  fd_table :: "nat \<rightharpoonup> string \<times> nat"
  next_fd :: nat
  calls :: "call list"

type_synonym 'a stmt = "world \<Rightarrow> (pyexc + 'a) \<times> world"

definition py_bind :: "'a stmt \<Rightarrow> ('a \<Rightarrow> 'b stmt) \<Rightarrow> 'b stmt" where
  "py_bind m k = (\<lambda>w. case m w of (Inl e, w') \<Rightarrow> (Inl e, w') | (Inr x, w') \<Rightarrow> k x w')"

definition py_seq :: "'a stmt \<Rightarrow> 'b stmt \<Rightarrow> 'b stmt" where
  "py_seq m k = py_bind m (\<lambda>_. k)"

subsection \<open>Library operations\<close>

definition os_error :: "exc_class \<Rightarrow> string \<Rightarrow> string \<Rightarrow> string \<Rightarrow> pyexc" where
  "os_error c errno strerror path =
     PyExc c (Msg (''[Errno '' @ errno @ ''] '' @ strerror @ '': '' @ quoted path))"

text \<open>
  \<^verbatim>\<open>open(path, 'rb')\<close>: a new file object positioned at byte 0, or the
  \<^verbatim>\<open>OSError\<close> subclass of the failure. Opening for reading changes no file.
\<close>

fun open_failure :: "string \<Rightarrow> fs_entry \<Rightarrow> pyexc option" where
  "open_failure path Absent =
     Some (os_error FileNotFoundError ''2'' ''No such file or directory'' path)"
| "open_failure path Unreadable =
     Some (os_error PermissionError ''13'' ''Permission denied'' path)"
| "open_failure path Directory =
     Some (os_error IsADirectoryError ''21'' ''Is a directory'' path)"
| "open_failure path (Regular bs) = None"

definition open_rb :: "string \<Rightarrow> nat stmt" where
  "open_rb path = (\<lambda>w.
     case open_failure path (files w path) of
       Some e \<Rightarrow> (Inl e, w\<lparr>calls := calls w @ [Open path ''rb'' None]\<rparr>)
     | None \<Rightarrow>
         (Inr (next_fd w),
          w\<lparr>fd_table := (fd_table w)(next_fd w \<mapsto> (path, 0)),
            next_fd := Suc (next_fd w),
            calls := calls w @ [Open path ''rb'' (Some (next_fd w))]\<rparr>))"

text \<open>\<^verbatim>\<open>f.read()\<close>: every byte from the current position to the end of the file.\<close>

definition file_read :: "nat \<Rightarrow> pyval stmt" where
  "file_read f = (\<lambda>w.
     case fd_table w f of
       None \<Rightarrow> (Inl (PyExc ValueError (Msg ''read of closed file'')), w)
     | Some (path, pos) \<Rightarrow>
         (case files w path of
            Regular bs \<Rightarrow>
              (Inr (PyBytes (drop pos bs)),
               w\<lparr>fd_table := (fd_table w)(f \<mapsto> (path, max pos (length bs))),
                 calls := calls w @ [Read f]\<rparr>)
          | _ \<Rightarrow>
              (Inl (os_error OSError ''5'' ''Input/output error'' path),
               w\<lparr>calls := calls w @ [Read f]\<rparr>)))"

text \<open>\<^verbatim>\<open>f.close()\<close>, which the \<^verbatim>\<open>with\<close> statement calls on the way out.\<close>

definition file_close :: "nat \<Rightarrow> world \<Rightarrow> world" where
  "file_close f w =
     (case fd_table w f of
        None \<Rightarrow> w
      | Some _ \<Rightarrow> w\<lparr>fd_table := (fd_table w)(f := None), calls := calls w @ [Close f]\<rparr>)"

text \<open>
  \<^verbatim>\<open>with open(path, 'rb') as f: body\<close>. When \<^verbatim>\<open>open\<close> raises, the body does
  not run and there is nothing to close; otherwise the file is closed whether the body
  returns or raises, and an exception of the body goes on to the caller.
\<close>

definition with_open_rb :: "string \<Rightarrow> (nat \<Rightarrow> 'a stmt) \<Rightarrow> 'a stmt" where
  "with_open_rb path body = (\<lambda>w.
     case open_rb path w of
       (Inl e, w1) \<Rightarrow> (Inl e, w1)
     | (Inr f, w1) \<Rightarrow> (case body f w1 of (r, w2) \<Rightarrow> (r, file_close f w2)))"

text \<open>\<^verbatim>\<open>print(s)\<close> appends one line to standard output, which accepts every write.\<close>

definition py_print :: "string \<Rightarrow> unit stmt" where
  "py_print s = (\<lambda>w. (Inr (), w\<lparr>stdout := stdout w @ [s]\<rparr>))"

text \<open>\<^verbatim>\<open>sys.exit(n)\<close> raises \<^verbatim>\<open>SystemExit(n)\<close>.\<close>

definition sys_exit :: "int \<Rightarrow> 'a stmt" where
  "sys_exit n = (\<lambda>w. (Inl (PyExc SystemExit (Code n)), w))"

text \<open>
  \<^verbatim>\<open>tomllib.loads(s)\<close> starts with \<^verbatim>\<open>src = s.replace("\r\n", "\n")\<close>. On a
  \<^verbatim>\<open>str\<close> this normalises the line ends and the TOML parser proper (the parameter
  \<open>parse\<close>) takes over. On a \<^verbatim>\<open>bytes\<close> object the call is \<^verbatim>\<open>bytes.replace\<close>
  with two \<^verbatim>\<open>str\<close> arguments, which raises \<^verbatim>\<open>TypeError\<close> (the text below is that
  of Python 3.11; later releases word it "Expected str object, not 'bytes'").
\<close>

fun crlf_to_lf :: "string \<Rightarrow> string" where
  "crlf_to_lf (a # b # cs) =
     (if a = CHR 0x0D \<and> b = CHR 0x0A then CHR 0x0A # crlf_to_lf cs
      else a # crlf_to_lf (b # cs))"
| "crlf_to_lf cs = cs"

definition bytes_replace_error :: pyexc where
  "bytes_replace_error =
     PyExc TypeError (Msg (''a bytes-like object is required, not '' @ quoted ''str''))"

definition tomllib_loads :: "(string \<Rightarrow> pyexc + 'd) \<Rightarrow> pyval \<Rightarrow> pyexc + 'd" where
  "tomllib_loads parse s =
     (case s of
        PyStr t \<Rightarrow> parse (crlf_to_lf t)
      | PyBytes b \<Rightarrow> Inl bytes_replace_error)"

text \<open>A call of the decoder \<open>dec\<close>, entered in the log.\<close>

definition call_loads :: "(pyval \<Rightarrow> pyexc + 'd) \<Rightarrow> pyval \<Rightarrow> 'd stmt" where
  "call_loads dec s = (\<lambda>w. (dec s, w\<lparr>calls := calls w @ [Loads s]\<rparr>))"

subsection \<open>The script\<close>

definition FIXTURE :: string where
  "FIXTURE = ''.secrets.toml.test''"

definition cross_mark :: string where
  "cross_mark = [CHR 0xE2, CHR 0x9D, CHR 0x8C]"

definition check_mark :: string where
  "check_mark = [CHR 0xE2, CHR 0x9C, CHR 0x85]"

definition warning_sign :: string where
  "warning_sign = [CHR 0xE2, CHR 0x9A, CHR 0xA0, CHR 0xEF, CHR 0xB8, CHR 0x8F]"

definition should_have_failed_line :: string where
  "should_have_failed_line = cross_mark @ '' ERROR: TOML validation should have failed!''"

definition not_detected_line :: string where
  "not_detected_line = ''   Missing closing quote was not detected!''"

definition caught_line :: string where
  "caught_line = check_mark @ '' TOML validation correctly caught error:''"

definition detail_line :: "pyexc \<Rightarrow> string" where
  "detail_line e = ''   '' @ str_exc e"

definition unexpected_line :: "pyexc \<Rightarrow> string" where
  "unexpected_line e = warning_sign @ ''  Unexpected error: '' @ str_exc e"

text \<open>The body of the \<^verbatim>\<open>try\<close> statement, for a decoder \<open>dec\<close>.\<close>

definition try_body :: "(pyval \<Rightarrow> pyexc + 'd) \<Rightarrow> unit stmt" where
  "try_body dec =
     py_seq (with_open_rb FIXTURE (\<lambda>f. py_bind (file_read f) (call_loads dec)))
    (py_seq (py_print should_have_failed_line)
    (py_seq (py_print not_detected_line)
            (sys_exit 1)))"

text \<open>
  The \<^verbatim>\<open>try\<close> statement with its two handlers, tried in the order written. An
  exception that matches neither clause leaves the statement; so does one raised inside
  a handler.
\<close>

definition main_with :: "(pyval \<Rightarrow> pyexc + 'd) \<Rightarrow> unit stmt" where
  "main_with dec = (\<lambda>w.
     case try_body dec w of
       (Inr u, w1) \<Rightarrow> (Inr u, w1)
     | (Inl e, w1) \<Rightarrow>
         if isinstance e TOMLDecodeError then
           (py_seq (py_print caught_line)
           (py_seq (py_print (detail_line e))
                   (sys_exit 0))) w1
         else if isinstance e Exception then
           (py_seq (py_print (unexpected_line e))
                   (sys_exit 1)) w1
         else (Inl e, w1))"

text \<open>The script as written: the decoder is \<^verbatim>\<open>tomllib.loads\<close>.\<close>

definition main :: "(string \<Rightarrow> pyexc + 'd) \<Rightarrow> unit stmt" where
  "main parse = main_with (tomllib_loads parse)"

subsection \<open>The process\<close>

text \<open>
  The interpreter starts the script with nothing printed and no file open (descriptors
  0, 1 and 2 are the standard streams). When the script ends it exits with status 0; a
  \<^verbatim>\<open>SystemExit\<close> that reaches the top ends the process with its code (a message
  instead of a code gives status 1); any other exception that reaches the top is
  reported with a traceback and status 1.
\<close>

definition initial :: "(string \<Rightarrow> fs_entry) \<Rightarrow> world" where
  "initial fs = \<lparr>files = fs, stdout = [], fd_table = Map.empty, next_fd = 3, calls = []\<rparr>"

record process =
  status :: int
  uncaught :: "pyexc option"
  final :: world

definition finish :: "(pyexc + unit) \<times> world \<Rightarrow> process" where
  "finish rw =
     (case rw of
        (Inr u, w) \<Rightarrow> \<lparr>status = 0, uncaught = None, final = w\<rparr>
      | (Inl e, w) \<Rightarrow>
          if isinstance e SystemExit then
            \<lparr>status = (case arg_of e of Code n \<Rightarrow> n mod 256 | Msg m \<Rightarrow> 1),
              uncaught = None, final = w\<rparr>
          else \<lparr>status = 1, uncaught = Some e, final = w\<rparr>)"

definition run_with :: "(pyval \<Rightarrow> pyexc + 'd) \<Rightarrow> (string \<Rightarrow> fs_entry) \<Rightarrow> process" where
  "run_with dec fs = finish (main_with dec (initial fs))"

definition run :: "(string \<Rightarrow> pyexc + 'd) \<Rightarrow> (string \<Rightarrow> fs_entry) \<Rightarrow> process" where
  "run parse fs = finish (main parse (initial fs))"

text \<open>Observers of the call log: descriptors obtained, and descriptors given back.\<close>

fun acquired :: "call list \<Rightarrow> nat list" where
  "acquired [] = []"
| "acquired (Open p m (Some fd) # cs) = fd # acquired cs"
| "acquired (c # cs) = acquired cs"

fun released :: "call list \<Rightarrow> nat list" where
  "released [] = []"
| "released (Close fd # cs) = fd # released cs"
| "released (c # cs) = released cs"

fun is_open_call :: "call \<Rightarrow> bool" where
  "is_open_call (Open p m r) = True"
| "is_open_call c = False"

fun is_loads_call :: "call \<Rightarrow> bool" where
  "is_loads_call (Loads s) = True"
| "is_loads_call c = False"

text \<open>
  The three outcomes of the check, read off what the process printed and the status it
  returned.
\<close>

definition unexpected_success :: "process \<Rightarrow> bool" where
  "unexpected_success r =
     (stdout (final r) = [should_have_failed_line, not_detected_line] \<and> status r = 1)"

definition expected_failure_caught :: "process \<Rightarrow> bool" where
  "expected_failure_caught r =
     (\<exists>e. isinstance e TOMLDecodeError \<and>
          stdout (final r) = [caught_line, detail_line e] \<and> status r = 0)"

definition unexpected_error :: "process \<Rightarrow> bool" where
  "unexpected_error r =
     (\<exists>e. isinstance e Exception \<and> \<not> isinstance e TOMLDecodeError \<and>
          stdout (final r) = [unexpected_line e] \<and> status r = 1)"

text \<open>
  The world after the \<^verbatim>\<open>with\<close> statement when the fixture is a regular file with
  bytes \<open>bs\<close>, and after \<^verbatim>\<open>open\<close> has refused.
\<close>

definition opened_world :: "(string \<Rightarrow> fs_entry) \<Rightarrow> string \<Rightarrow> world" where
  "opened_world fs bs =
     \<lparr>files = fs, stdout = [], fd_table = Map.empty, next_fd = 4,
      calls = [Open FIXTURE ''rb'' (Some 3), Read 3, Loads (PyBytes bs), Close 3]\<rparr>"

definition refused_world :: "(string \<Rightarrow> fs_entry) \<Rightarrow> world" where
  "refused_world fs =
     \<lparr>files = fs, stdout = [], fd_table = Map.empty, next_fd = 3,
      calls = [Open FIXTURE ''rb'' None]\<rparr>"

section \<open>Running the statements\<close>

lemma py_bind_apply:
  "py_bind m k w = (case m w of (Inl e, w') \<Rightarrow> (Inl e, w') | (Inr x, w') \<Rightarrow> k x w')"
  by (simp add: py_bind_def)

lemma py_seq_apply:
  "py_seq m k w = (case m w of (Inl e, w') \<Rightarrow> (Inl e, w') | (Inr x, w') \<Rightarrow> k w')"
  by (simp add: py_seq_def py_bind_def)

lemma open_failure_cases:
  "(\<exists>bs. x = Regular bs \<and> open_failure path x = None) \<or>
   (\<exists>e. open_failure path x = Some e \<and> (\<forall>bs. x \<noteq> Regular bs))"
  by (cases x) simp_all

lemma open_failure_class:
  assumes "open_failure path x = Some e"
  shows "isinstance e OSError" and "isinstance e Exception"
    and "\<not> isinstance e TOMLDecodeError" and "\<not> isinstance e SystemExit"
  using assms by (cases x; simp add: isinstance_def issubclass_def os_error_def; fastforce)+

lemma system_exit_class:
  "isinstance (PyExc SystemExit a) SystemExit"
  "\<not> isinstance (PyExc SystemExit a) Exception"
  "\<not> isinstance (PyExc SystemExit a) TOMLDecodeError"
  by (simp_all add: isinstance_def issubclass_def)

lemma exception_not_system_exit:
  "isinstance e Exception \<Longrightarrow> \<not> isinstance e SystemExit"
  by (cases e; cases "class_of e") (auto simp add: isinstance_def issubclass_def)

lemma decode_error_is_exception:
  "isinstance e TOMLDecodeError \<Longrightarrow> isinstance e Exception"
  by (cases e; cases "class_of e") (auto simp add: isinstance_def issubclass_def)

lemma bytes_replace_error_class:
  "isinstance bytes_replace_error TypeError"
  "isinstance bytes_replace_error Exception"
  "\<not> isinstance bytes_replace_error TOMLDecodeError"
  by (simp_all add: bytes_replace_error_def isinstance_def issubclass_def)

lemma with_block_regular:
  "fs FIXTURE = Regular bs \<Longrightarrow>
   with_open_rb FIXTURE (\<lambda>f. py_bind (file_read f) (call_loads dec)) (initial fs) =
     (dec (PyBytes bs), opened_world fs bs)"
  by (simp add: with_open_rb_def open_rb_def initial_def py_bind_apply file_read_def
      call_loads_def file_close_def opened_world_def)

lemma with_block_refused:
  "open_failure FIXTURE (fs FIXTURE) = Some e \<Longrightarrow>
   with_open_rb FIXTURE body (initial fs) = (Inl e, refused_world fs)"
  by (simp add: with_open_rb_def open_rb_def initial_def refused_world_def)

lemma try_body_regular:
  "fs FIXTURE = Regular bs \<Longrightarrow>
   try_body dec (initial fs) =
     (case dec (PyBytes bs) of
        Inl e \<Rightarrow> (Inl e, opened_world fs bs)
      | Inr d \<Rightarrow>
          (Inl (PyExc SystemExit (Code 1)),
           (opened_world fs bs)\<lparr>stdout := [should_have_failed_line, not_detected_line]\<rparr>))"
  by (simp add: try_body_def py_seq_apply with_block_regular py_print_def sys_exit_def
      opened_world_def split: sum.splits)

lemma try_body_refused:
  "open_failure FIXTURE (fs FIXTURE) = Some e \<Longrightarrow>
   try_body dec (initial fs) = (Inl e, refused_world fs)"
  by (simp add: try_body_def py_seq_apply with_block_refused)

lemma run_with_refused:
  "open_failure FIXTURE (fs FIXTURE) = Some e \<Longrightarrow>
   run_with dec fs =
     \<lparr>status = 1, uncaught = None,
      final = (refused_world fs)\<lparr>stdout := [unexpected_line e]\<rparr>\<rparr>"
  by (simp add: run_with_def main_with_def try_body_refused open_failure_class py_seq_apply
      py_print_def sys_exit_def finish_def system_exit_class refused_world_def)

lemma run_with_not_rejected:
  "fs FIXTURE = Regular bs \<Longrightarrow> dec (PyBytes bs) = Inr d \<Longrightarrow>
   run_with dec fs =
     \<lparr>status = 1, uncaught = None,
      final = (opened_world fs bs)\<lparr>stdout := [should_have_failed_line, not_detected_line]\<rparr>\<rparr>"
  by (simp add: run_with_def main_with_def try_body_regular finish_def system_exit_class)

lemma run_with_caught:
  "fs FIXTURE = Regular bs \<Longrightarrow> dec (PyBytes bs) = Inl e \<Longrightarrow> isinstance e TOMLDecodeError \<Longrightarrow>
   run_with dec fs =
     \<lparr>status = 0, uncaught = None,
      final = (opened_world fs bs)\<lparr>stdout := [caught_line, detail_line e]\<rparr>\<rparr>"
  by (simp add: run_with_def main_with_def try_body_regular py_seq_apply py_print_def
      sys_exit_def finish_def system_exit_class opened_world_def)

lemma run_with_unexpected:
  "fs FIXTURE = Regular bs \<Longrightarrow> dec (PyBytes bs) = Inl e \<Longrightarrow>
   \<not> isinstance e TOMLDecodeError \<Longrightarrow> isinstance e Exception \<Longrightarrow>
   run_with dec fs =
     \<lparr>status = 1, uncaught = None,
      final = (opened_world fs bs)\<lparr>stdout := [unexpected_line e]\<rparr>\<rparr>"
  by (simp add: run_with_def main_with_def try_body_regular py_seq_apply py_print_def
      sys_exit_def finish_def system_exit_class opened_world_def)

lemma run_with_escaped:
  "fs FIXTURE = Regular bs \<Longrightarrow> dec (PyBytes bs) = Inl e \<Longrightarrow>
   \<not> isinstance e TOMLDecodeError \<Longrightarrow> \<not> isinstance e Exception \<Longrightarrow>
   run_with dec fs = finish (Inl e, opened_world fs bs)"
  by (simp add: run_with_def main_with_def try_body_regular)

lemma final_finish: "final (finish (r, w)) = w"
  by (cases r) (simp_all add: finish_def)

lemma run_is_run_with: "run parse fs = run_with (tomllib_loads parse) fs"
  by (simp add: run_def run_with_def main_def)

lemma tomllib_loads_bytes: "tomllib_loads parse (PyBytes bs) = Inl bytes_replace_error"
  by (simp add: tomllib_loads_def)

lemma run_regular:
  "fs FIXTURE = Regular bs \<Longrightarrow>
   run parse fs =
     \<lparr>status = 1, uncaught = None,
      final = (opened_world fs bs)\<lparr>stdout := [unexpected_line bytes_replace_error]\<rparr>\<rparr>"
  using run_with_unexpected [where dec = "tomllib_loads parse" and e = bytes_replace_error]
  by (simp add: run_is_run_with tomllib_loads_bytes bytes_replace_error_class)

lemma lines_differ:
  "should_have_failed_line \<noteq> caught_line"
  by (simp add: should_have_failed_line_def caught_line_def cross_mark_def check_mark_def)

lemma outcomes_exclusive:
  "\<not> (unexpected_success r \<and> expected_failure_caught r)"
  "\<not> (unexpected_success r \<and> unexpected_error r)"
  "\<not> (expected_failure_caught r \<and> unexpected_error r)"
  by (auto simp add: unexpected_success_def expected_failure_caught_def unexpected_error_def
      lines_differ)

lemma run_with_depends_on_fixture:
  assumes "fs1 FIXTURE = fs2 FIXTURE"
  shows "status (run_with dec fs1) = status (run_with dec fs2)"
    and "uncaught (run_with dec fs1) = uncaught (run_with dec fs2)"
    and "stdout (final (run_with dec fs1)) = stdout (final (run_with dec fs2))"
    and "calls (final (run_with dec fs1)) = calls (final (run_with dec fs2))"
proof -
  have "status (run_with dec fs1) = status (run_with dec fs2) \<and>
    uncaught (run_with dec fs1) = uncaught (run_with dec fs2) \<and>
    stdout (final (run_with dec fs1)) = stdout (final (run_with dec fs2)) \<and>
    calls (final (run_with dec fs1)) = calls (final (run_with dec fs2))"
    using open_failure_cases [of "fs1 FIXTURE" FIXTURE]
  proof (elim disjE exE conjE)
    fix bs
    assume reg1: "fs1 FIXTURE = Regular bs"
    with assms have reg2: "fs2 FIXTURE = Regular bs" by simp
    have t1: "try_body dec (initial fs1) =
        (case dec (PyBytes bs) of
           Inl e \<Rightarrow> (Inl e, opened_world fs1 bs)
         | Inr d \<Rightarrow> (Inl (PyExc SystemExit (Code 1)),
             (opened_world fs1 bs)\<lparr>stdout := [should_have_failed_line, not_detected_line]\<rparr>))"
      using reg1 by (rule try_body_regular)
    have t2: "try_body dec (initial fs2) =
        (case dec (PyBytes bs) of
           Inl e \<Rightarrow> (Inl e, opened_world fs2 bs)
         | Inr d \<Rightarrow> (Inl (PyExc SystemExit (Code 1)),
             (opened_world fs2 bs)\<lparr>stdout := [should_have_failed_line, not_detected_line]\<rparr>))"
      using reg2 by (rule try_body_regular)
    show ?thesis
      by (simp add: run_with_def main_with_def t1 t2 py_seq_apply py_print_def sys_exit_def
          finish_def opened_world_def split: sum.splits)
  next
    fix e
    assume f1: "open_failure FIXTURE (fs1 FIXTURE) = Some e"
    with assms have f2: "open_failure FIXTURE (fs2 FIXTURE) = Some e" by simp
    show ?thesis
      by (simp add: run_with_refused [where fs = fs1, OF f1]
          run_with_refused [where fs = fs2, OF f2] refused_world_def)
  qed
  then show "status (run_with dec fs1) = status (run_with dec fs2)"
    and "uncaught (run_with dec fs1) = uncaught (run_with dec fs2)"
    and "stdout (final (run_with dec fs1)) = stdout (final (run_with dec fs2))"
    and "calls (final (run_with dec fs1)) = calls (final (run_with dec fs2))"
    by simp_all
qed

lemma final_of_run:
  "(final (run_with dec fs))\<lparr>stdout := []\<rparr> =
     (case fs FIXTURE of
        Regular bs \<Rightarrow> opened_world fs bs
      | _ \<Rightarrow> refused_world fs)"
  using open_failure_cases [of "fs FIXTURE" FIXTURE]
proof (elim disjE exE conjE)
  fix bs
  assume reg: "fs FIXTURE = Regular bs"
  have t: "try_body dec (initial fs) =
      (case dec (PyBytes bs) of
         Inl e \<Rightarrow> (Inl e, opened_world fs bs)
       | Inr d \<Rightarrow> (Inl (PyExc SystemExit (Code 1)),
           (opened_world fs bs)\<lparr>stdout := [should_have_failed_line, not_detected_line]\<rparr>))"
    using reg by (rule try_body_regular)
  show ?thesis
    by (simp add: reg run_with_def main_with_def t py_seq_apply py_print_def sys_exit_def
        final_finish opened_world_def split: sum.splits)
next
  fix e
  assume f: "open_failure FIXTURE (fs FIXTURE) = Some e" and n: "\<forall>bs. fs FIXTURE \<noteq> Regular bs"
  show ?thesis
    using n
    by (cases "fs FIXTURE")
       (simp_all add: run_with_refused [where fs = fs, OF f] refused_world_def)
qed

lemma files_unchanged: "files (final (run_with dec fs)) = fs"
proof -
  have "files (final (run_with dec fs)) = files ((final (run_with dec fs))\<lparr>stdout := []\<rparr>)"
    by simp
  also have "\<dots> = fs"
    unfolding final_of_run
    by (cases "fs FIXTURE") (simp_all add: opened_world_def refused_world_def)
  finally show ?thesis .
qed

lemma calls_of_run:
  "calls (final (run_with dec fs)) =
     (case fs FIXTURE of
        Regular bs \<Rightarrow> [Open FIXTURE ''rb'' (Some 3), Read 3, Loads (PyBytes bs), Close 3]
      | _ \<Rightarrow> [Open FIXTURE ''rb'' None])"
proof -
  have "calls (final (run_with dec fs)) = calls ((final (run_with dec fs))\<lparr>stdout := []\<rparr>)"
    by simp
  also have "\<dots> = (case fs FIXTURE of
        Regular bs \<Rightarrow> [Open FIXTURE ''rb'' (Some 3), Read 3, Loads (PyBytes bs), Close 3]
      | _ \<Rightarrow> [Open FIXTURE ''rb'' None])"
    unfolding final_of_run
    by (cases "fs FIXTURE") (simp_all add: opened_world_def refused_world_def)
  finally show ?thesis .
qed

lemma fd_table_of_run: "fd_table (final (run_with dec fs)) = Map.empty"
proof -
  have "fd_table (final (run_with dec fs)) =
      fd_table ((final (run_with dec fs))\<lparr>stdout := []\<rparr>)"
    by simp
  also have "\<dots> = Map.empty"
    unfolding final_of_run
    by (cases "fs FIXTURE") (simp_all add: opened_world_def refused_world_def)
  finally show ?thesis .
qed

lemma run_refused:
  "open_failure FIXTURE (fs FIXTURE) = Some e \<Longrightarrow>
   run parse fs =
     \<lparr>status = 1, uncaught = None,
      final = (refused_world fs)\<lparr>stdout := [unexpected_line e]\<rparr>\<rparr>"
  by (simp add: run_is_run_with run_with_refused)

lemma run_never_other_branch:
  "\<not> unexpected_success (run parse fs) \<and> \<not> expected_failure_caught (run parse fs)"
  using open_failure_cases [of "fs FIXTURE" FIXTURE]
proof (elim disjE exE conjE)
  fix bs
  assume reg: "fs FIXTURE = Regular bs"
  show ?thesis
    by (simp add: run_regular [where fs = fs, OF reg] unexpected_success_def
        expected_failure_caught_def)
next
  fix e
  assume f: "open_failure FIXTURE (fs FIXTURE) = Some e"
  show ?thesis
    by (simp add: run_refused [where fs = fs, OF f] unexpected_success_def
        expected_failure_caught_def)
qed

section \<open>The claims\<close>

subsection \<open>What the script does with a fixture it can read\<close>

text \<open>
  C1. The claim: a fixture whose TOML has a string without its closing quote, such as
  \<^verbatim>\<open>key = "unterminated\<close>, makes the decode step raise the malformed-syntax error, the
  script prints "TOML validation correctly caught error" with the detail, and the exit
  status is 0. The script does not do this: on that fixture the decode call raises
  \<^verbatim>\<open>TypeError\<close> (it is given \<^verbatim>\<open>bytes\<close>), the script prints the single
  "Unexpected error" line and the exit status is 1, whatever the TOML parser would say.
\<close>

theorem unterminated_fixture_takes_unexpected_branch:
  \<open>status (run parse ((\<lambda>p. Absent)(FIXTURE := Regular ''key = "unterminated''))) = 1 \<and>
   stdout (final (run parse ((\<lambda>p. Absent)(FIXTURE := Regular ''key = "unterminated'')))) =
     [unexpected_line bytes_replace_error]\<close>
  by (simp add: run_regular)

text \<open>
  C3. The claim: a fixture of well-formed TOML, such as \<^verbatim>\<open>key = "valid"\<close>, is decoded
  successfully, the script prints "ERROR: TOML validation should have failed!" and the
  exit status is 1. The script does not do this either: the decode call raises
  \<^verbatim>\<open>TypeError\<close> before any parsing, and the script prints the "Unexpected error" line
  (the exit status is 1 all the same).
\<close>

theorem well_formed_fixture_takes_unexpected_branch:
  \<open>status (run parse ((\<lambda>p. Absent)(FIXTURE := Regular ''key = "valid"''))) = 1 \<and>
   stdout (final (run parse ((\<lambda>p. Absent)(FIXTURE := Regular ''key = "valid"'')))) =
     [unexpected_line bytes_replace_error] \<and>
   fst (try_body (tomllib_loads parse)
          (initial ((\<lambda>p. Absent)(FIXTURE := Regular ''key = "valid"'')))) =
     Inl bytes_replace_error\<close>
  by (simp add: run_regular try_body_regular tomllib_loads_bytes)

subsection \<open>The classification of outcomes\<close>

text \<open>
  C2. For every invocation the exit status is 0 if and only if the decode step failed
  with \<^verbatim>\<open>TOMLDecodeError\<close>, and 1 in every other outcome (the decoder returned, or
  another error occurred, in the decoder or when opening the fixture). Stated for any
  decoder whose errors on \<^verbatim>\<open>bytes\<close> are instances of \<^verbatim>\<open>Exception\<close>, which
  \<^verbatim>\<open>tomllib.loads\<close> is.
\<close>

theorem exit_status_zero_iff_decode_error:
  assumes "\<And>bs e. dec (PyBytes bs) = Inl e \<Longrightarrow> isinstance e Exception"
  shows "status (run_with dec fs) =
           (if \<exists>bs e. fs FIXTURE = Regular bs \<and> dec (PyBytes bs) = Inl e \<and>
                  isinstance e TOMLDecodeError
            then 0 else 1)"
proof -
  from open_failure_cases [of "fs FIXTURE" FIXTURE] show ?thesis
  proof (elim disjE exE conjE)
    fix bs
    assume reg: "fs FIXTURE = Regular bs"
    show ?thesis
    proof (cases "dec (PyBytes bs)")
      case (Inr d)
      with reg show ?thesis by (simp add: run_with_not_rejected)
    next
      case (Inl e)
      show ?thesis
      proof (cases "isinstance e TOMLDecodeError")
        case True
        with reg Inl show ?thesis by (auto simp add: run_with_caught)
      next
        case False
        with reg Inl assms [OF Inl] show ?thesis by (simp add: run_with_unexpected)
      qed
    qed
  next
    fix e
    assume "open_failure FIXTURE (fs FIXTURE) = Some e" "\<forall>bs. fs FIXTURE \<noteq> Regular bs"
    then show ?thesis by (simp add: run_with_refused)
  qed
qed

theorem exit_status_zero_iff_decode_error_witness:
  \<open>status (run_with (\<lambda>s. Inl (PyExc TOMLDecodeError (Msg ''Unterminated string'')) :: pyexc + unit)
      ((\<lambda>p. Absent)(FIXTURE := Regular ''key = "unterminated''))) = 0\<close>
proof -
  let ?dec = "\<lambda>s::pyval. Inl (PyExc TOMLDecodeError (Msg ''Unterminated string'')) :: pyexc + unit"
  have h: "\<And>bs e. ?dec (PyBytes bs) = Inl e \<Longrightarrow> isinstance e Exception"
    by (auto simp add: isinstance_def issubclass_def)
  show ?thesis
    using exit_status_zero_iff_decode_error
      [where dec = ?dec
         and fs = \<open>(\<lambda>p. Absent)(FIXTURE := Regular ''key = "unterminated'')\<close>, OF h]
    by (simp add: isinstance_def issubclass_def)
qed

text \<open>
  C4. If the fixture does not exist, the error raised is \<^verbatim>\<open>FileNotFoundError\<close> and not
  a decode error, the script prints the "Unexpected error" warning with the error's
  text, nothing goes uncaught, and the exit status is 1.
\<close>

theorem missing_fixture_is_unexpected_error:
  assumes "fs FIXTURE = Absent"
  shows "fst (try_body dec (initial fs)) =
           Inl (os_error FileNotFoundError ''2'' ''No such file or directory'' FIXTURE) \<and>
         isinstance (os_error FileNotFoundError ''2'' ''No such file or directory'' FIXTURE)
           FileNotFoundError \<and>
         \<not> isinstance (os_error FileNotFoundError ''2'' ''No such file or directory'' FIXTURE)
           TOMLDecodeError \<and>
         stdout (final (run_with dec fs)) =
           [unexpected_line
              (os_error FileNotFoundError ''2'' ''No such file or directory'' FIXTURE)] \<and>
         status (run_with dec fs) = 1 \<and>
         uncaught (run_with dec fs) = None"
proof -
  have f: "open_failure FIXTURE (fs FIXTURE) =
      Some (os_error FileNotFoundError ''2'' ''No such file or directory'' FIXTURE)"
    using assms by simp
  show ?thesis
    by (simp add: try_body_refused [where fs = fs, OF f] run_with_refused [where fs = fs, OF f])
       (simp add: os_error_def isinstance_def issubclass_def)
qed

theorem missing_fixture_is_unexpected_error_witness:
  "status (run_with (tomllib_loads (\<lambda>s. Inr ())) (\<lambda>p. Absent)) = 1 \<and>
   stdout (final (run_with (tomllib_loads (\<lambda>s. Inr ())) (\<lambda>p. Absent))) =
     [warning_sign @ ''  Unexpected error: [Errno 2] No such file or directory: '' @
        quoted ''.secrets.toml.test'']"
proof -
  have h: "(\<lambda>p. Absent) FIXTURE = Absent" by simp
  show ?thesis
    using missing_fixture_is_unexpected_error
      [where fs = "\<lambda>p. Absent" and dec = "tomllib_loads (\<lambda>s. Inr ())", OF h]
    by (simp add: unexpected_line_def os_error_def FIXTURE_def)
qed

text \<open>
  C5. Whatever the file system holds and whatever the decoder answers (an error of the
  decoder being an instance of \<^verbatim>\<open>Exception\<close>), the run ends in exactly one of the
  three outcomes (unexpected success, expected failure caught, unexpected error): no
  exception other than the \<^verbatim>\<open>SystemExit\<close> of the branch reaches the interpreter,
  something has been printed, and the exit status is 0 or 1.
\<close>

theorem every_outcome_takes_one_branch:
  assumes "\<And>bs e. dec (PyBytes bs) = Inl e \<Longrightarrow> isinstance e Exception"
  shows "uncaught (run_with dec fs) = None \<and>
         (status (run_with dec fs) = 0 \<or> status (run_with dec fs) = 1) \<and>
         stdout (final (run_with dec fs)) \<noteq> [] \<and>
         ((unexpected_success (run_with dec fs) \<and>
             \<not> expected_failure_caught (run_with dec fs) \<and>
             \<not> unexpected_error (run_with dec fs)) \<or>
          (expected_failure_caught (run_with dec fs) \<and>
             \<not> unexpected_success (run_with dec fs) \<and>
             \<not> unexpected_error (run_with dec fs)) \<or>
          (unexpected_error (run_with dec fs) \<and>
             \<not> unexpected_success (run_with dec fs) \<and>
             \<not> expected_failure_caught (run_with dec fs)))"
proof -
  have one: "unexpected_success (run_with dec fs) \<or> expected_failure_caught (run_with dec fs) \<or>
      unexpected_error (run_with dec fs)"
    and rest: "uncaught (run_with dec fs) = None"
      "status (run_with dec fs) = 0 \<or> status (run_with dec fs) = 1"
      "stdout (final (run_with dec fs)) \<noteq> []"
  proof -
    from open_failure_cases [of "fs FIXTURE" FIXTURE]
    have "(unexpected_success (run_with dec fs) \<or> expected_failure_caught (run_with dec fs) \<or>
        unexpected_error (run_with dec fs)) \<and> uncaught (run_with dec fs) = None \<and>
      (status (run_with dec fs) = 0 \<or> status (run_with dec fs) = 1) \<and>
      stdout (final (run_with dec fs)) \<noteq> []"
    proof (elim disjE exE conjE)
      fix bs
      assume reg: "fs FIXTURE = Regular bs"
      show ?thesis
      proof (cases "dec (PyBytes bs)")
        case (Inr d)
        show ?thesis
          by (simp add: run_with_not_rejected [where fs = fs and dec = dec, OF reg Inr] unexpected_success_def)
      next
        case (Inl e)
        show ?thesis
        proof (cases "isinstance e TOMLDecodeError")
          case True
          have "expected_failure_caught (run_with dec fs)"
            unfolding expected_failure_caught_def
            by (rule exI [of _ e]) (simp add: run_with_caught [where fs = fs and dec = dec, OF reg Inl True] True)
          then show ?thesis
            by (simp add: run_with_caught [where fs = fs and dec = dec, OF reg Inl True])
        next
          case False
          have "unexpected_error (run_with dec fs)"
            unfolding unexpected_error_def
            by (rule exI [of _ e])
               (simp add: run_with_unexpected [where fs = fs and dec = dec, OF reg Inl False assms [OF Inl]] False
                assms [OF Inl])
          then show ?thesis
            by (simp add: run_with_unexpected [where fs = fs and dec = dec, OF reg Inl False assms [OF Inl]])
        qed
      qed
    next
      fix e
      assume f: "open_failure FIXTURE (fs FIXTURE) = Some e"
      have "unexpected_error (run_with dec fs)"
        unfolding unexpected_error_def
        by (rule exI [of _ e]) (simp add: run_with_refused [where fs = fs, OF f] open_failure_class [OF f])
      then show ?thesis
        by (simp add: run_with_refused [where fs = fs, OF f])
    qed
    then show "unexpected_success (run_with dec fs) \<or> expected_failure_caught (run_with dec fs) \<or>
        unexpected_error (run_with dec fs)"
      and "uncaught (run_with dec fs) = None"
      and "status (run_with dec fs) = 0 \<or> status (run_with dec fs) = 1"
      and "stdout (final (run_with dec fs)) \<noteq> []"
      by blast+
  qed
  from one outcomes_exclusive [of "run_with dec fs"] rest show ?thesis
    by blast
qed

theorem every_outcome_takes_one_branch_witness:
  "uncaught (run_with (tomllib_loads (\<lambda>s. Inr ())) (\<lambda>p. Regular [])) = None \<and>
   status (run_with (tomllib_loads (\<lambda>s. Inr ())) (\<lambda>p. Regular [])) = 1 \<and>
   unexpected_error (run_with (tomllib_loads (\<lambda>s. Inr ())) (\<lambda>p. Regular [])) \<and>
   \<not> unexpected_success (run_with (tomllib_loads (\<lambda>s. Inr ())) (\<lambda>p. Regular [])) \<and>
   \<not> expected_failure_caught (run_with (tomllib_loads (\<lambda>s. Inr ())) (\<lambda>p. Regular []))"
proof -
  let ?r = "run_with (tomllib_loads (\<lambda>s. Inr ()) :: pyval \<Rightarrow> pyexc + unit) (\<lambda>p. Regular [])"
  have branch: "uncaught ?r = None \<and> (status ?r = 0 \<or> status ?r = 1) \<and>
      stdout (final ?r) \<noteq> [] \<and>
      ((unexpected_success ?r \<and> \<not> expected_failure_caught ?r \<and> \<not> unexpected_error ?r) \<or>
       (expected_failure_caught ?r \<and> \<not> unexpected_success ?r \<and> \<not> unexpected_error ?r) \<or>
       (unexpected_error ?r \<and> \<not> unexpected_success ?r \<and> \<not> expected_failure_caught ?r))"
    by (rule every_outcome_takes_one_branch)
       (simp add: tomllib_loads_bytes bytes_replace_error_class)
  have out: "stdout (final ?r) = [unexpected_line bytes_replace_error]" and st: "status ?r = 1"
    by (simp_all add: run_is_run_with [symmetric] run_regular)
  have "\<not> unexpected_success ?r"
    by (simp add: unexpected_success_def out)
  moreover have "\<not> expected_failure_caught ?r"
    by (simp add: expected_failure_caught_def out)
  ultimately show ?thesis
    using branch st by blast
qed

subsection \<open>Determinism, the file handle and the frame\<close>

text \<open>
  C6. The check is deterministic: two runs against the same fixture content give the
  same exit status and the same printed lines. The result depends on the file system
  only through the fixture's entry, and since a run leaves the files as they were, a
  second run on the files the first one left repeats its status and its lines.
\<close>

theorem same_fixture_same_result:
  assumes "fs2 FIXTURE = fs1 FIXTURE"
  shows "status (run_with dec fs2) = status (run_with dec fs1) \<and>
         stdout (final (run_with dec fs2)) = stdout (final (run_with dec fs1)) \<and>
         status (run_with dec (files (final (run_with dec fs1)))) = status (run_with dec fs1) \<and>
         stdout (final (run_with dec (files (final (run_with dec fs1))))) =
           stdout (final (run_with dec fs1))"
  using run_with_depends_on_fixture [where dec = dec and ?fs1.0 = fs2 and ?fs2.0 = fs1, OF assms]
  by (simp add: files_unchanged)

theorem same_fixture_same_result_witness:
  \<open>status (run_with (tomllib_loads (\<lambda>s. Inr ()))
      ((\<lambda>p. Absent)(FIXTURE := Regular ''key = "unterminated'', ''other.toml'' := Regular ''a = 1''))) =
   status (run_with (tomllib_loads (\<lambda>s. Inr ()))
      ((\<lambda>p. Absent)(FIXTURE := Regular ''key = "unterminated''))) \<and>
   stdout (final (run_with (tomllib_loads (\<lambda>s. Inr ()))
      ((\<lambda>p. Absent)(FIXTURE := Regular ''key = "unterminated'', ''other.toml'' := Regular ''a = 1'')))) =
   stdout (final (run_with (tomllib_loads (\<lambda>s. Inr ()))
      ((\<lambda>p. Absent)(FIXTURE := Regular ''key = "unterminated''))))\<close>
proof -
  have h: \<open>((\<lambda>p. Absent)(FIXTURE := Regular ''key = "unterminated'', ''other.toml'' := Regular ''a = 1'')) FIXTURE =
      ((\<lambda>p. Absent)(FIXTURE := Regular ''key = "unterminated'')) FIXTURE\<close>
    by (simp add: FIXTURE_def)
  show ?thesis
    using same_fixture_same_result
      [where dec = "tomllib_loads (\<lambda>s. Inr ())"
         and ?fs2.0 = \<open>(\<lambda>p. Absent)(FIXTURE := Regular ''key = "unterminated'', ''other.toml'' := Regular ''a = 1'')\<close>
         and ?fs1.0 = \<open>(\<lambda>p. Absent)(FIXTURE := Regular ''key = "unterminated'')\<close>, OF h]
    by simp
qed

text \<open>
  C7. The script makes exactly one acquisition, the \<^verbatim>\<open>open\<close> call of its
  \<^verbatim>\<open>with\<close> statement, which yields one file object when the fixture can be opened
  (and none when \<^verbatim>\<open>open\<close> itself raises). On every exit path, whatever the decoder
  returns or raises, each file object obtained has been closed and no file is open when
  the process ends.
\<close>

theorem one_handle_always_released:
  "length (filter is_open_call (calls (final (run_with dec fs)))) = 1 \<and>
   length (acquired (calls (final (run_with dec fs)))) =
     (case fs FIXTURE of Regular bs \<Rightarrow> 1 | _ \<Rightarrow> 0) \<and>
   released (calls (final (run_with dec fs))) = acquired (calls (final (run_with dec fs))) \<and>
   fd_table (final (run_with dec fs)) = Map.empty"
  by (cases "fs FIXTURE") (simp_all add: calls_of_run fd_table_of_run)

text \<open>
  C8. The fixture path is the constant \<^verbatim>\<open>.secrets.toml.test\<close>; the script opens it
  for reading in binary mode, reads it once, passes every byte read to one decode call,
  and closes it. These are all its calls on the file system, and the files are after
  the run what they were before.
\<close>

theorem reads_fixture_and_changes_nothing:
  "FIXTURE = ''.secrets.toml.test'' \<and>
   files (final (run_with dec fs)) = fs \<and>
   calls (final (run_with dec fs)) =
     (case fs FIXTURE of
        Regular bs \<Rightarrow> [Open FIXTURE ''rb'' (Some 3), Read 3, Loads (PyBytes bs), Close 3]
      | _ \<Rightarrow> [Open FIXTURE ''rb'' None])"
  by (simp add: files_unchanged calls_of_run) (simp add: FIXTURE_def)

subsection \<open>Bytes handed to a decoder of strings\<close>

text \<open>
  C9. The file is opened in binary mode and its bytes go to \<^verbatim>\<open>tomllib.loads\<close>,
  which takes a \<^verbatim>\<open>str\<close>: \<^verbatim>\<open>TypeError\<close> is raised before any TOML is parsed (the
  result does not depend on the parser). So for every fixture that can be opened and
  read, well-formed or not, the script takes the \<^verbatim>\<open>except Exception\<close> branch,
  prints the "Unexpected error" warning and exits with status 1; the
  \<^verbatim>\<open>TOMLDecodeError\<close> branch and the unexpected-success branch are reached for no
  file system at all.
\<close>

theorem bytes_input_always_unexpected_error:
  assumes "fs FIXTURE = Regular bs"
  shows "fst (try_body (tomllib_loads parse) (initial fs)) = Inl bytes_replace_error \<and>
         isinstance bytes_replace_error TypeError \<and>
         \<not> isinstance bytes_replace_error TOMLDecodeError \<and>
         status (run parse fs) = 1 \<and>
         uncaught (run parse fs) = None \<and>
         stdout (final (run parse fs)) = [unexpected_line bytes_replace_error] \<and>
         run parse' fs = run parse fs \<and>
         (\<forall>fs'. \<not> unexpected_success (run parse fs') \<and>
                \<not> expected_failure_caught (run parse fs'))"
proof -
  have "fst (try_body (tomllib_loads parse) (initial fs)) = Inl bytes_replace_error"
    by (simp add: try_body_regular [where fs = fs, OF assms] tomllib_loads_bytes)
  moreover have "run parse' fs = run parse fs"
    by (simp add: run_regular [where fs = fs, OF assms])
  ultimately show ?thesis
    by (simp add: run_regular [where fs = fs, OF assms] bytes_replace_error_class
        run_never_other_branch)
qed

theorem bytes_input_always_unexpected_error_witness:
  \<open>status (run (\<lambda>s. Inr ()) (\<lambda>p. Regular ''key = "valid"'')) = 1 \<and>
   stdout (final (run (\<lambda>s. Inr ()) (\<lambda>p. Regular ''key = "valid"''))) =
     [warning_sign @ ''  Unexpected error: a bytes-like object is required, not '' @
        quoted ''str''] \<and>
   run (\<lambda>s. Inl (PyExc TOMLDecodeError (Msg ''Invalid statement'')) :: pyexc + unit)
       (\<lambda>p. Regular ''key = "valid"'') =
   run (\<lambda>s. Inr ()) (\<lambda>p. Regular ''key = "valid"'')\<close>
proof -
  have h: \<open>(\<lambda>p. Regular ''key = "valid"'') FIXTURE = Regular ''key = "valid"''\<close>
    by simp
  show ?thesis
    using bytes_input_always_unexpected_error
      [where fs = \<open>\<lambda>p. Regular ''key = "valid"''\<close> and parse = "\<lambda>s. Inr ()"
         and parse' = "\<lambda>s. Inl (PyExc TOMLDecodeError (Msg ''Invalid statement'')) :: pyexc + unit",
       OF h]
    by (simp add: unexpected_line_def bytes_replace_error_def)
qed

text \<open>
  C10. In the unexpected-success branch \<^verbatim>\<open>sys.exit(1)\<close> raises
  \<^verbatim>\<open>SystemExit\<close>, which is not an instance of \<^verbatim>\<open>Exception\<close>: neither handler
  of the \<^verbatim>\<open>try\<close> statement intercepts it, the statement ends as its body did, only
  the two lines of that branch have been printed, and the process exits with status 1.
\<close>

theorem exit_in_try_body_is_not_intercepted:
  assumes "fs FIXTURE = Regular bs" and "dec (PyBytes bs) = Inr d"
  shows "(sys_exit 1 :: unit stmt) = (\<lambda>w. (Inl (PyExc SystemExit (Code 1)), w)) \<and>
         \<not> isinstance (PyExc SystemExit (Code 1)) Exception \<and>
         try_body dec (initial fs) =
           (Inl (PyExc SystemExit (Code 1)),
            (opened_world fs bs)\<lparr>stdout := [should_have_failed_line, not_detected_line]\<rparr>) \<and>
         main_with dec (initial fs) = try_body dec (initial fs) \<and>
         stdout (final (run_with dec fs)) = [should_have_failed_line, not_detected_line] \<and>
         uncaught (run_with dec fs) = None \<and>
         status (run_with dec fs) = 1"
proof -
  have t: "try_body dec (initial fs) =
      (Inl (PyExc SystemExit (Code 1)),
       (opened_world fs bs)\<lparr>stdout := [should_have_failed_line, not_detected_line]\<rparr>)"
    by (simp add: try_body_regular [where fs = fs, OF assms(1)] assms(2))
  have m: "main_with dec (initial fs) = try_body dec (initial fs)"
    by (simp add: main_with_def t system_exit_class)
  show ?thesis
    by (simp add: m t run_with_not_rejected [where fs = fs and dec = dec, OF assms]
        system_exit_class sys_exit_def)
qed

theorem exit_in_try_body_is_not_intercepted_witness:
  \<open>stdout (final (run_with (\<lambda>s. Inr ()) (\<lambda>p. Regular ''key = "valid"''))) =
     [cross_mark @ '' ERROR: TOML validation should have failed!'',
      ''   Missing closing quote was not detected!''] \<and>
   status (run_with (\<lambda>s. Inr ()) (\<lambda>p. Regular ''key = "valid"'')) = 1\<close>
proof -
  have h: \<open>(\<lambda>p. Regular ''key = "valid"'') FIXTURE = Regular ''key = "valid"''\<close>
    by simp
  have k: \<open>(\<lambda>s. Inr ()) (PyBytes ''key = "valid"'') = (Inr () :: pyexc + unit)\<close>
    by simp
  show ?thesis
    using exit_in_try_body_is_not_intercepted
      [where fs = \<open>\<lambda>p. Regular ''key = "valid"''\<close> and dec = "\<lambda>s. Inr ()" and d = "()",
       OF h k]
    by (simp add: should_have_failed_line_def not_detected_line_def)
qed

end
